theory Spec2Isabelle
  imports Main "HOL-Library.Sublist"
begin

section \<open>The Zendesk helper functions of \<^verbatim>\<open>zendesk.py\<close>\<close>

text \<open>
  The module holds four functions, each of which builds one HTTP request, hands it to the
  \<^verbatim>\<open>requests\<close> library and turns the answer into a Python value. The model makes
  explicit everything such a function does: the value it returns or the exception it
  raises (\<open>exn + pyval\<close>, \<open>Inl\<close> the exception), the lines it prints and the requests
  it sends (the record \<open>effects\<close>, passed in and returned extended).

  A Python \<^verbatim>\<open>str\<close> is modelled by the bytes of its UTF-8 encoding, so that
  \<^verbatim>\<open>s.encode('utf-8')\<close> is the identity, concatenation is \<open>@\<close>, and a literal of
  the source is an Isabelle string literal.
\<close>

subsection \<open>Python values and exceptions\<close>

text \<open>
  The values that \<^verbatim>\<open>response.json()\<close> yields and that the functions return. A
  \<^verbatim>\<open>dict\<close> is the list of its items in insertion order; its keys are distinct, and
  \<open>map_of\<close> looks a key up. A \<^verbatim>\<open>float\<close> is kept as mantissa and binary exponent; no
  function of the module computes with one.
\<close>

datatype pyval =
    PyNone
  | PyBool bool
  | PyInt int
  | PyFloat int int
  | PyStr string
  | PyList "pyval list"
  | PyDict "(string \<times> pyval) list"

text \<open>
  The exceptions that can occur, each with its message (a \<^verbatim>\<open>KeyError\<close> with the
  missing key).
  \<open>RequestException\<close> stands for the transport failures of \<^verbatim>\<open>requests\<close>
  (connection errors, timeouts, invalid URLs) other than the two named subclasses;
  \<open>OtherException\<close> for anything that is not part of that hierarchy.
\<close>

datatype exn =
    RequestException string
  | HTTPError string
  | JSONDecodeError string
  | KeyError string
  | TypeError string
  | AttributeError string
  | NameError string
  | OtherException string

fun str_exn :: "exn \<Rightarrow> string" where
  "str_exn (RequestException m) = m"
| "str_exn (HTTPError m) = m"
| "str_exn (JSONDecodeError m) = m"
| "str_exn (KeyError k) = [CHR 0x27] @ k @ [CHR 0x27]"
| "str_exn (TypeError m) = m"
| "str_exn (AttributeError m) = m"
| "str_exn (NameError m) = m"
| "str_exn (OtherException m) = m"

text \<open>
  What \<^verbatim>\<open>except requests.exceptions.RequestException\<close> catches: the class and its
  subclasses, among them \<^verbatim>\<open>HTTPError\<close> and the \<^verbatim>\<open>JSONDecodeError\<close> of
  \<^verbatim>\<open>requests\<close>.
\<close>

fun is_RequestException :: "exn \<Rightarrow> bool" where
  "is_RequestException (RequestException m) = True"
| "is_RequestException (HTTPError m) = True"
| "is_RequestException (JSONDecodeError m) = True"
| "is_RequestException e = False"

definition then_exn :: "exn + 'a \<Rightarrow> ('a \<Rightarrow> exn + 'b) \<Rightarrow> exn + 'b" where
  "then_exn r f = (case r of Inl e \<Rightarrow> Inl e | Inr x \<Rightarrow> f x)"

subsection \<open>Formatting integers\<close>

text \<open>\<^verbatim>\<open>str(n)\<close> for an integer, as an f-string inserts it: decimal, with a sign when negative.\<close>

fun str_nat :: "nat \<Rightarrow> string" where
  "str_nat n =
     (if n < 10 then [''0123456789'' ! n]
      else str_nat (n div 10) @ [''0123456789'' ! (n mod 10)])"

declare str_nat.simps [simp del]

definition str_int :: "int \<Rightarrow> string" where
  "str_int i = (if i < 0 then ''-'' @ str_nat (nat (- i)) else str_nat (nat i))"

subsection \<open>Base64\<close>

text \<open>
  \<^verbatim>\<open>base64.b64encode\<close> of the standard library: the standard alphabet, three bytes to
  four characters, padded with \<^verbatim>\<open>=\<close>.
\<close>

definition b64_alphabet :: string where
  "b64_alphabet = ''ABCDEFGHIJKLMNOPQRSTUVWXYZabcdefghijklmnopqrstuvwxyz0123456789+/''"

definition b64_char :: "nat \<Rightarrow> char" where
  "b64_char n = b64_alphabet ! n"

fun b64_groups :: "nat list \<Rightarrow> string" where
  "b64_groups [] = []"
| "b64_groups [a] =
     [b64_char (a div 4), b64_char ((a mod 4) * 16), CHR ''='', CHR ''='']"
| "b64_groups [a, b] =
     [b64_char (a div 4), b64_char ((a mod 4) * 16 + b div 16),
      b64_char ((b mod 16) * 4), CHR ''='']"
| "b64_groups (a # b # c # rest) =
     [b64_char (a div 4), b64_char ((a mod 4) * 16 + b div 16),
      b64_char ((b mod 16) * 4 + c div 64), b64_char (c mod 64)] @ b64_groups rest"

definition b64encode :: "string \<Rightarrow> string" where
  "b64encode s = b64_groups (map of_char s)"

subsection \<open>The HTTP transport\<close>

text \<open>
  A request as \<^verbatim>\<open>requests.get\<close> is given it: the URL, the \<^verbatim>\<open>headers\<close> and
  \<^verbatim>\<open>params\<close> dictionaries, and the \<^verbatim>\<open>auth\<close> pair when there is one.
\<close>

record request =
  http_method :: string
  url :: string
  headers :: "(string \<times> string) list"
  params :: "(string \<times> string) list"
  basic_auth :: "(string \<times> string) option"

text \<open>
  The part of a \<^verbatim>\<open>requests.Response\<close> the module reads. \<open>json\<close> is what
  \<^verbatim>\<open>response.json()\<close> decodes from the body, \<open>None\<close> when the body is not JSON.
\<close>

record response =
  status_code :: int
  reason :: string
  response_url :: string
  body_text :: string
  json :: "pyval option"

text \<open>The remote side: a request is answered with a response, or the call raises.\<close>

type_synonym transport = "request \<Rightarrow> exn + response"

text \<open>What a call leaves behind: the lines printed and the requests sent, oldest first.\<close>

record effects =
  stdout :: "string list"
  sent :: "request list"

definition print :: "string \<Rightarrow> effects \<Rightarrow> effects" where
  "print line fx = fx\<lparr>stdout := stdout fx @ [line]\<rparr>"

definition requests_get ::
  "transport \<Rightarrow> string \<Rightarrow> (string \<times> string) list \<Rightarrow> (string \<times> string) list \<Rightarrow>
   (string \<times> string) option \<Rightarrow> effects \<Rightarrow> (exn + response) \<times> effects" where
  "requests_get net u hs ps au fx =
     (let rq = \<lparr>http_method = ''GET'', url = u, headers = hs, params = ps, basic_auth = au\<rparr>
      in (net rq, fx\<lparr>sent := sent fx @ [rq]\<rparr>))"

text \<open>The transport's answer to the request sent last.\<close>

definition answered :: "transport \<Rightarrow> effects \<Rightarrow> exn + response" where
  "answered net fx = net (last (sent fx))"

definition response_json :: "response \<Rightarrow> exn + pyval" where
  "response_json r =
     (case json r of
        None \<Rightarrow> Inl (JSONDecodeError ''Expecting value'')
      | Some v \<Rightarrow> Inr v)"

text \<open>
  \<^verbatim>\<open>Response.raise_for_status\<close> of \<^verbatim>\<open>requests\<close>: an \<^verbatim>\<open>HTTPError\<close> for a
  status from 400 to 599, nothing otherwise.
\<close>

definition raise_for_status :: "response \<Rightarrow> exn + unit" where
  "raise_for_status r =
     (if 400 \<le> status_code r \<and> status_code r < 500 then
        Inl (HTTPError (str_int (status_code r) @ '' Client Error: '' @ reason r
                        @ '' for url: '' @ response_url r))
      else if 500 \<le> status_code r \<and> status_code r < 600 then
        Inl (HTTPError (str_int (status_code r) @ '' Server Error: '' @ reason r
                        @ '' for url: '' @ response_url r))
      else Inr ())"

subsection \<open>Operations on Python values\<close>

text \<open>\<^verbatim>\<open>v[key]\<close> with a string key: only a dictionary accepts it.\<close>

fun subscript :: "pyval \<Rightarrow> string \<Rightarrow> exn + pyval" where
  "subscript (PyDict kvs) k =
     (case map_of kvs k of None \<Rightarrow> Inl (KeyError k) | Some v \<Rightarrow> Inr v)"
| "subscript (PyList xs) k = Inl (TypeError ''list indices must be integers or slices, not str'')"
| "subscript (PyStr s) k = Inl (TypeError ''string indices must be integers, not str'')"
| "subscript v k = Inl (TypeError ''object is not subscriptable'')"

text \<open>
  \<^verbatim>\<open>v[:1]\<close>: the first element of a list if it has one, the first code point of a
  string (its first byte and the continuation bytes after it); never an error on a
  sequence, however short. Other values cannot be sliced (a dictionary rejects the slice
  as a key: with \<^verbatim>\<open>TypeError\<close> before Python 3.12, where a slice is not hashable).
\<close>

definition is_continuation :: "char \<Rightarrow> bool" where
  "is_continuation c = (128 \<le> (of_char c :: nat) \<and> (of_char c :: nat) < 192)"

fun slice_to_1 :: "pyval \<Rightarrow> exn + pyval" where
  "slice_to_1 (PyList xs) = Inr (PyList (take 1 xs))"
| "slice_to_1 (PyStr []) = Inr (PyStr [])"
| "slice_to_1 (PyStr (c # cs)) = Inr (PyStr (c # takeWhile is_continuation cs))"
| "slice_to_1 (PyDict kvs) = Inl (TypeError ''unhashable type: slice'')"
| "slice_to_1 v = Inl (TypeError ''object is not subscriptable'')"

text \<open>\<^verbatim>\<open>v.get(key, default)\<close>: a method of dictionaries only.\<close>

fun dict_get :: "pyval \<Rightarrow> string \<Rightarrow> pyval \<Rightarrow> exn + pyval" where
  "dict_get (PyDict kvs) k d = (case map_of kvs k of None \<Rightarrow> Inr d | Some v \<Rightarrow> Inr v)"
| "dict_get v k d = Inl (AttributeError ''object has no attribute get'')"

subsection \<open>The module\<close>

text \<open>
  The three names the module imports from \<^verbatim>\<open>settings\<close>, under the names it gives
  them; \<^verbatim>\<open>settings\<close> itself is configuration and a parameter here.
\<close>

record settings =
  api_key :: string
  ZENDESK_EMAIL :: string
  zendesk_domain :: string

definition auth :: "settings \<Rightarrow> string" where
  "auth cfg =
     (let auth_string = b64encode (ZENDESK_EMAIL cfg @ ''/token:'' @ api_key cfg)
      in ''Basic '' @ auth_string)"

definition read_open_zendesk_tickets ::
  "settings \<Rightarrow> transport \<Rightarrow> effects \<Rightarrow> (exn + pyval) \<times> effects" where
  "read_open_zendesk_tickets cfg net fx =
     (let url = ''https://'' @ zendesk_domain cfg @ ''.zendesk.com/api/v2/search.json'';
          headers = [(''Authorization'', auth cfg), (''Content-Type'', ''application/json'')];
          query = ''status:open type:ticket'';
          params = [(''query'', query)]
      in case requests_get net url headers params None fx of
           (Inl e, fx1) \<Rightarrow> (Inl e, fx1)
         | (Inr response, fx1) \<Rightarrow>
             if status_code response = 200 then
               (then_exn (response_json response)
                  (\<lambda>j. then_exn (subscript j ''results'') slice_to_1), fx1)
             else
               (Inr (PyStr (''Error fetching tickets: '' @ str_int (status_code response))),
                print (body_text response) fx1))"

definition search_tickets ::
  "settings \<Rightarrow> transport \<Rightarrow> string \<Rightarrow> effects \<Rightarrow> (exn + pyval) \<times> effects" where
  "search_tickets cfg net keywords fx =
     (let url = ''https://'' @ zendesk_domain cfg @ ''.zendesk.com/api/v2/search.json'';
          headers = [(''Authorization'', auth cfg), (''Content-Type'', ''application/json'')];
          query = ''status:closed type:ticket description:'' @ [CHR 0x22] @ keywords
                  @ [CHR 0x22];
          params = [(''query'', query)]
      in case requests_get net url headers params None fx of
           (Inl e, fx1) \<Rightarrow> (Inl e, fx1)
         | (Inr response, fx1) \<Rightarrow>
             if status_code response = 200 then
               (then_exn (response_json response) (\<lambda>j. subscript j ''results''), fx1)
             else
               (Inr (PyStr (''Error searching tickets: '' @ str_int (status_code response))),
                fx1))"

text \<open>
  The names bound at module level when a function runs: the imports and the four
  functions, and \<^verbatim>\<open>t\<close>, \<^verbatim>\<open>ticket_id\<close> and \<^verbatim>\<open>r\<close> of the main block. A
  name that a function reads and never assigns is looked up here and then among the
  builtins, which have no \<^verbatim>\<open>response\<close>, and raises \<^verbatim>\<open>NameError\<close> when it is
  not bound.
\<close>

definition module_globals :: "string list" where
  "module_globals =
     [''requests'', ''base64'', ''api_key'', ''ZENDESK_EMAIL'', ''zendesk_domain'',
      ''auth'', ''read_open_zendesk_tickets'', ''search_tickets'',
      ''reply_to_senders_ticket'', ''get_zendesk_ticket_messages'',
      ''t'', ''ticket_id'', ''r'']"

definition load_global :: "string \<Rightarrow> exn + string" where
  "load_global name =
     (if name \<in> set module_globals then Inr name
      else Inl (NameError (''name '' @ [CHR 0x27] @ name @ [CHR 0x27] @ '' is not defined'')))"

text \<open>
  The call of \<^verbatim>\<open>requests.post\<close> is a comment in the source, so \<^verbatim>\<open>response\<close> is not
  a local variable: the test of \<^verbatim>\<open>response.status_code\<close> reads a global of that name.
  None of the module's globals has an attribute \<^verbatim>\<open>status_code\<close>.
\<close>

definition reply_to_senders_ticket ::
  "settings \<Rightarrow> string \<Rightarrow> string \<Rightarrow> effects \<Rightarrow> (exn + pyval) \<times> effects" where
  "reply_to_senders_ticket cfg ticket_id message fx =
     (let url = ''https://api.senders.com/v1/tickets/'' @ ticket_id @ ''/reply'';
          headers = [(''Authorization'', ''Bearer '' @ api_key cfg),
                     (''Content-Type'', ''application/json'')];
          data = [(''message'', message)];
          fx1 = print message fx
      in case load_global ''response'' of
           Inl e \<Rightarrow> (Inl e, fx1)
         | Inr obj \<Rightarrow> (Inl (AttributeError ''object has no attribute status_code''), fx1))"

definition get_zendesk_ticket_messages ::
  "settings \<Rightarrow> transport \<Rightarrow> int \<Rightarrow> effects \<Rightarrow> (exn + pyval) \<times> effects" where
  "get_zendesk_ticket_messages cfg net ticket_id fx =
     (let url = ''https://'' @ zendesk_domain cfg @ ''.zendesk.com/api/v2/tickets/''
                @ str_int ticket_id @ ''/comments.json'';
          auth = (ZENDESK_EMAIL cfg @ ''/token'', api_key cfg);
          attempt =
            (case requests_get net url [] [] (Some auth) fx of
               (Inl e, fx1) \<Rightarrow> (Inl e, fx1)
             | (Inr response, fx1) \<Rightarrow>
                 (then_exn (raise_for_status response)
                    (\<lambda>_. then_exn (response_json response)
                       (\<lambda>j. dict_get j ''comments'' (PyList []))), fx1))
      in case attempt of
           (Inl e, fx1) \<Rightarrow>
             if is_RequestException e then
               (Inr PyNone, print (''Error fetching ticket messages: '' @ str_exn e) fx1)
             else (Inl e, fx1)
         | (Inr comments, fx1) \<Rightarrow> (Inr comments, fx1))"

subsection \<open>Example inputs\<close>

text \<open>
  Concrete settings, a transport that answers every request with one response, one that
  raises on every request, and a run that starts with nothing printed and nothing sent.
\<close>

definition example_settings :: settings where
  "example_settings = \<lparr>api_key = ''k3y'', ZENDESK_EMAIL = ''a@b.c'', zendesk_domain = ''acme''\<rparr>"

definition no_effects :: effects where
  "no_effects = \<lparr>stdout = [], sent = []\<rparr>"

definition example_response :: "int \<Rightarrow> pyval option \<Rightarrow> response" where
  "example_response c j =
     \<lparr>status_code = c, reason = ''Reason'', response_url = ''https://acme.zendesk.com/x'',
      body_text = ''body'', json = j\<rparr>"

definition answering :: "response \<Rightarrow> transport" where
  "answering r = (\<lambda>rq. Inr r)"

definition failing :: "exn \<Rightarrow> transport" where
  "failing e = (\<lambda>rq. Inl e)"

section \<open>What each function does with the transport's answer\<close>

text \<open>
  Each function sends one request. The lemmas of this section give its result and its
  effects from the answer to that request; the properties below follow from them.
\<close>

lemma sent_print: "sent (print line fx) = sent fx"
  by (simp add: print_def)

lemma stdout_print: "stdout (print line fx) = stdout fx @ [line]"
  by (simp add: print_def)

lemma read_open_result:
  "answered net (snd (read_open_zendesk_tickets cfg net fx)) = Inr r \<Longrightarrow>
     fst (read_open_zendesk_tickets cfg net fx) =
       (if status_code r = 200 then
          then_exn (response_json r) (\<lambda>j. then_exn (subscript j ''results'') slice_to_1)
        else Inr (PyStr (''Error fetching tickets: '' @ str_int (status_code r))))"
  by (auto simp: read_open_zendesk_tickets_def requests_get_def answered_def Let_def print_def
      split: sum.splits if_splits)

lemma read_open_stdout:
  "answered net (snd (read_open_zendesk_tickets cfg net fx)) = Inr r \<Longrightarrow>
     stdout (snd (read_open_zendesk_tickets cfg net fx)) =
       (if status_code r = 200 then stdout fx else stdout fx @ [body_text r])"
  by (auto simp: read_open_zendesk_tickets_def requests_get_def answered_def Let_def print_def
      split: sum.splits if_splits)

lemma search_result:
  "answered net (snd (search_tickets cfg net keywords fx)) = Inr r \<Longrightarrow>
     fst (search_tickets cfg net keywords fx) =
       (if status_code r = 200 then
          then_exn (response_json r) (\<lambda>j. subscript j ''results'')
        else Inr (PyStr (''Error searching tickets: '' @ str_int (status_code r))))"
  by (auto simp: search_tickets_def requests_get_def answered_def Let_def
      split: sum.splits if_splits)

lemma search_stdout:
  "stdout (snd (search_tickets cfg net keywords fx)) = stdout fx"
  by (auto simp: search_tickets_def requests_get_def Let_def split: sum.splits)

lemma messages_result:
  "answered net (snd (get_zendesk_ticket_messages cfg net ticket_id fx)) = Inr r \<Longrightarrow>
     fst (get_zendesk_ticket_messages cfg net ticket_id fx) =
       (case then_exn (raise_for_status r)
               (\<lambda>_. then_exn (response_json r) (\<lambda>j. dict_get j ''comments'' (PyList []))) of
          Inl e \<Rightarrow> if is_RequestException e then Inr PyNone else Inl e
        | Inr comments \<Rightarrow> Inr comments)"
  by (auto simp: get_zendesk_ticket_messages_def requests_get_def answered_def Let_def print_def
      split: sum.splits if_splits)

lemma messages_stdout:
  "answered net (snd (get_zendesk_ticket_messages cfg net ticket_id fx)) = Inr r \<Longrightarrow>
     stdout (snd (get_zendesk_ticket_messages cfg net ticket_id fx)) =
       (case then_exn (raise_for_status r)
               (\<lambda>_. then_exn (response_json r) (\<lambda>j. dict_get j ''comments'' (PyList []))) of
          Inl e \<Rightarrow>
            if is_RequestException e
            then stdout fx @ [''Error fetching ticket messages: '' @ str_exn e]
            else stdout fx
        | Inr comments \<Rightarrow> stdout fx)"
  by (auto simp: get_zendesk_ticket_messages_def requests_get_def answered_def Let_def print_def
      split: sum.splits if_splits)

lemma messages_raised_result:
  "answered net (snd (get_zendesk_ticket_messages cfg net ticket_id fx)) = Inl e \<Longrightarrow>
     fst (get_zendesk_ticket_messages cfg net ticket_id fx) =
       (if is_RequestException e then Inr PyNone else Inl e)"
  by (auto simp: get_zendesk_ticket_messages_def requests_get_def answered_def Let_def print_def
      split: sum.splits if_splits)

lemma messages_raised_stdout:
  "answered net (snd (get_zendesk_ticket_messages cfg net ticket_id fx)) = Inl e \<Longrightarrow>
     stdout (snd (get_zendesk_ticket_messages cfg net ticket_id fx)) =
       (if is_RequestException e
        then stdout fx @ [''Error fetching ticket messages: '' @ str_exn e]
        else stdout fx)"
  by (auto simp: get_zendesk_ticket_messages_def requests_get_def answered_def Let_def print_def
      split: sum.splits if_splits)

text \<open>The requests sent: one more than before, whatever the answer.\<close>

lemma read_open_sent:
  "sent (snd (read_open_zendesk_tickets cfg net fx)) =
     sent fx @
     [\<lparr>http_method = ''GET'',
       url = ''https://'' @ zendesk_domain cfg @ ''.zendesk.com/api/v2/search.json'',
       headers = [(''Authorization'', auth cfg), (''Content-Type'', ''application/json'')],
       params = [(''query'', ''status:open type:ticket'')],
       basic_auth = None\<rparr>]"
  by (auto simp: read_open_zendesk_tickets_def requests_get_def Let_def print_def
      split: sum.splits)

lemma search_sent:
  "sent (snd (search_tickets cfg net keywords fx)) =
     sent fx @
     [\<lparr>http_method = ''GET'',
       url = ''https://'' @ zendesk_domain cfg @ ''.zendesk.com/api/v2/search.json'',
       headers = [(''Authorization'', auth cfg), (''Content-Type'', ''application/json'')],
       params = [(''query'', ''status:closed type:ticket description:'' @ [CHR 0x22]
                             @ keywords @ [CHR 0x22])],
       basic_auth = None\<rparr>]"
  by (auto simp: search_tickets_def requests_get_def Let_def split: sum.splits)

lemma messages_sent:
  "sent (snd (get_zendesk_ticket_messages cfg net ticket_id fx)) =
     sent fx @
     [\<lparr>http_method = ''GET'',
       url = ''https://'' @ zendesk_domain cfg @ ''.zendesk.com/api/v2/tickets/''
             @ str_int ticket_id @ ''/comments.json'',
       headers = [], params = [],
       basic_auth = Some (ZENDESK_EMAIL cfg @ ''/token'', api_key cfg)\<rparr>]"
  by (auto simp: get_zendesk_ticket_messages_def requests_get_def Let_def print_def
      split: sum.splits)

text \<open>A status from 400 to 599 raises, and the message starts with the status code.\<close>

lemma raise_for_status_error:
  "400 \<le> status_code r \<Longrightarrow> status_code r < 600 \<Longrightarrow>
     \<exists>m. raise_for_status r = Inl (HTTPError (str_int (status_code r) @ m))"
  by (auto simp: raise_for_status_def)

text \<open>Only a dictionary has \<^verbatim>\<open>get\<close>: on any other value the call raises.\<close>

lemma dict_get_not_dict:
  "(\<forall>kvs. j \<noteq> PyDict kvs) \<Longrightarrow> \<exists>m. dict_get j k d = Inl (AttributeError m)"
  by (cases j) simp_all

subsection \<open>Base64 on the test vectors of RFC 4648\<close>

lemma b64encode_rfc4648:
  "b64encode '''' = ''''"
  "b64encode ''f'' = ''Zg==''"
  "b64encode ''fo'' = ''Zm8=''"
  "b64encode ''foo'' = ''Zm9v''"
  "b64encode ''foob'' = ''Zm9vYg==''"
  "b64encode ''fooba'' = ''Zm9vYmE=''"
  "b64encode ''foobar'' = ''Zm9vYmFy''"
  by (simp_all add: b64encode_def b64_char_def b64_alphabet_def)

lemma length_b64_groups: "length (b64_groups bs) = 4 * ((length bs + 2) div 3)"
proof (induction bs rule: b64_groups.induct)
  case (4 a b c rest)
  have "(length (a # b # c # rest) + 2) div 3 = Suc ((length rest + 2) div 3)"
    by simp
  with 4 show ?case
    by simp
qed simp_all

lemma length_b64encode: "length (b64encode s) = 4 * ((length s + 2) div 3)"
  by (simp add: b64encode_def length_b64_groups)

lemma auth_example: "auth example_settings = ''Basic YUBiLmMvdG9rZW46azN5''"
  by (simp add: auth_def example_settings_def b64encode_def b64_char_def b64_alphabet_def)

subsection \<open>Evaluation on the example inputs\<close>

lemma search_query_injection_example:
  "params (last (sent (snd (search_tickets cfg net (''x'' @ [CHR 0x22] @ '' status:open'') fx))))
     = [(''query'', ''status:closed type:ticket description:'' @ [CHR 0x22] @ ''x''
                    @ [CHR 0x22] @ '' status:open'' @ [CHR 0x22])]"
  by (simp add: search_sent)

lemma answered_answering: "answered (answering r) fx = Inr r"
  by (simp add: answered_def answering_def)

lemma answered_failing: "answered (failing e) fx = Inl e"
  by (simp add: answered_def failing_def)

lemma str_int_404: "str_int 404 = ''404''"
  by (simp add: str_int_def str_nat.simps)

lemma str_int_503: "str_int 503 = ''503''"
  by (simp add: str_int_def str_nat.simps)

section \<open>Properties\<close>

text \<open>
  C1. When the transport answers with a status code other than 200,
  \<open>read_open_zendesk_tickets\<close> and \<open>search_tickets\<close> each return a string: a fixed
  message followed by the decimal status code, which the string therefore contains. The
  string is built from the status code alone, so nothing of the response body is returned.
\<close>

theorem non_200_gives_status_string:
  assumes "status_code r \<noteq> 200"
  shows "(answered net (snd (read_open_zendesk_tickets cfg net fx)) = Inr r \<longrightarrow>
            fst (read_open_zendesk_tickets cfg net fx)
              = Inr (PyStr (''Error fetching tickets: '' @ str_int (status_code r)))
            \<and> sublist (str_int (status_code r))
                 (''Error fetching tickets: '' @ str_int (status_code r)))
       \<and> (answered net (snd (search_tickets cfg net keywords fx)) = Inr r \<longrightarrow>
            fst (search_tickets cfg net keywords fx)
              = Inr (PyStr (''Error searching tickets: '' @ str_int (status_code r)))
            \<and> sublist (str_int (status_code r))
                 (''Error searching tickets: '' @ str_int (status_code r)))"
proof -
  have open_sub: "sublist (str_int (status_code r))
      (''Error fetching tickets: '' @ str_int (status_code r))"
    by (rule sublist_append_leftI)
  have search_sub: "sublist (str_int (status_code r))
      (''Error searching tickets: '' @ str_int (status_code r))"
    by (rule sublist_append_leftI)
  have open_res: "fst (read_open_zendesk_tickets cfg net fx)
      = Inr (PyStr (''Error fetching tickets: '' @ str_int (status_code r)))"
    if "answered net (snd (read_open_zendesk_tickets cfg net fx)) = Inr r"
    using that assms by (simp add: read_open_result)
  have search_res: "fst (search_tickets cfg net keywords fx)
      = Inr (PyStr (''Error searching tickets: '' @ str_int (status_code r)))"
    if "answered net (snd (search_tickets cfg net keywords fx)) = Inr r"
    using that assms by (simp add: search_result)
  from open_sub search_sub open_res search_res show ?thesis
    by blast
qed

theorem non_200_gives_status_string_witness:
  "status_code (example_response 404 (Some (PyDict [(''results'', PyList [PyInt 1])]))) \<noteq> 200
   \<and> answered (answering (example_response 404 (Some (PyDict [(''results'', PyList [PyInt 1])]))))
        (snd (read_open_zendesk_tickets example_settings
           (answering (example_response 404 (Some (PyDict [(''results'', PyList [PyInt 1])]))))
           no_effects))
      = Inr (example_response 404 (Some (PyDict [(''results'', PyList [PyInt 1])])))
   \<and> fst (read_open_zendesk_tickets example_settings
           (answering (example_response 404 (Some (PyDict [(''results'', PyList [PyInt 1])]))))
           no_effects)
      = Inr (PyStr ''Error fetching tickets: 404'')
   \<and> answered (answering (example_response 404 (Some (PyDict [(''results'', PyList [PyInt 1])]))))
        (snd (search_tickets example_settings
           (answering (example_response 404 (Some (PyDict [(''results'', PyList [PyInt 1])]))))
           ''password'' no_effects))
      = Inr (example_response 404 (Some (PyDict [(''results'', PyList [PyInt 1])])))
   \<and> fst (search_tickets example_settings
           (answering (example_response 404 (Some (PyDict [(''results'', PyList [PyInt 1])]))))
           ''password'' no_effects)
      = Inr (PyStr ''Error searching tickets: 404'')"
  using non_200_gives_status_string
    [of "example_response 404 (Some (PyDict [(''results'', PyList [PyInt 1])]))"
        "answering (example_response 404 (Some (PyDict [(''results'', PyList [PyInt 1])])))"
        example_settings no_effects "''password''"]
  by (simp add: answered_answering example_response_def str_int_404)

text \<open>
  C2. When the transport answers with status 200 and a JSON object whose \<open>results\<close> entry
  is a list, \<open>read_open_zendesk_tickets\<close> returns the list cut to its first element: at
  most one record, and the first one when there is any, however many the list holds.
\<close>

theorem open_tickets_at_most_first:
  assumes "answered net (snd (read_open_zendesk_tickets cfg net fx)) = Inr r"
    and "status_code r = 200"
    and "json r = Some (PyDict kvs)"
    and "map_of kvs ''results'' = Some (PyList xs)"
  shows "fst (read_open_zendesk_tickets cfg net fx) = Inr (PyList (take 1 xs))
         \<and> length (take 1 xs) \<le> 1
         \<and> (xs \<noteq> [] \<longrightarrow> take 1 xs = [hd xs])"
  using assms
  by (cases xs) (simp_all add: read_open_result then_exn_def response_json_def)

theorem open_tickets_at_most_first_witness:
  "answered (answering (example_response 200 (Some (PyDict [(''results'', PyList [PyInt 7, PyInt 8, PyInt 9])]))))
     (snd (read_open_zendesk_tickets example_settings
        (answering (example_response 200 (Some (PyDict [(''results'', PyList [PyInt 7, PyInt 8, PyInt 9])]))))
        no_effects))
     = Inr (example_response 200 (Some (PyDict [(''results'', PyList [PyInt 7, PyInt 8, PyInt 9])])))
   \<and> status_code (example_response 200 (Some (PyDict [(''results'', PyList [PyInt 7, PyInt 8, PyInt 9])]))) = 200
   \<and> json (example_response 200 (Some (PyDict [(''results'', PyList [PyInt 7, PyInt 8, PyInt 9])])))
       = Some (PyDict [(''results'', PyList [PyInt 7, PyInt 8, PyInt 9])])
   \<and> map_of [(''results'', PyList [PyInt 7, PyInt 8, PyInt 9])] ''results''
       = Some (PyList [PyInt 7, PyInt 8, PyInt 9])
   \<and> [PyInt 7, PyInt 8, PyInt 9] \<noteq> []
   \<and> fst (read_open_zendesk_tickets example_settings
        (answering (example_response 200 (Some (PyDict [(''results'', PyList [PyInt 7, PyInt 8, PyInt 9])]))))
        no_effects)
     = Inr (PyList [PyInt 7])"
  using open_tickets_at_most_first
    [of "answering (example_response 200 (Some (PyDict [(''results'', PyList [PyInt 7, PyInt 8, PyInt 9])])))"
        example_settings no_effects
        "example_response 200 (Some (PyDict [(''results'', PyList [PyInt 7, PyInt 8, PyInt 9])]))"
        "[(''results'', PyList [PyInt 7, PyInt 8, PyInt 9])]"
        "[PyInt 7, PyInt 8, PyInt 9]"]
  by (simp add: answered_answering example_response_def)

text \<open>
  C3. When the request of \<open>get_zendesk_ticket_messages\<close> fails in the transport (the
  call raises an exception of the \<open>RequestException\<close> family) or is answered with a
  status that \<open>raise_for_status\<close> turns into an \<open>HTTPError\<close> (400 to 599), the
  function returns \<^verbatim>\<open>None\<close> and prints one line that starts with
  \<^verbatim>\<open>Error fetching ticket messages: \<close> and carries the exception's message. The
  result is a value, not an exception: nothing reaches the caller.
\<close>

theorem comment_fetch_catches_transport_failures:
  "(answered net (snd (get_zendesk_ticket_messages cfg net ticket_id fx)) = Inl e
      \<and> is_RequestException e \<longrightarrow>
      fst (get_zendesk_ticket_messages cfg net ticket_id fx) = Inr PyNone
      \<and> stdout (snd (get_zendesk_ticket_messages cfg net ticket_id fx))
          = stdout fx @ [''Error fetching ticket messages: '' @ str_exn e])
   \<and> (answered net (snd (get_zendesk_ticket_messages cfg net ticket_id fx)) = Inr r
      \<and> 400 \<le> status_code r \<and> status_code r < 600 \<longrightarrow>
      fst (get_zendesk_ticket_messages cfg net ticket_id fx) = Inr PyNone
      \<and> (\<exists>m. stdout (snd (get_zendesk_ticket_messages cfg net ticket_id fx))
          = stdout fx @ [''Error fetching ticket messages: '' @ str_int (status_code r) @ m]))"
proof (intro conjI impI)
  assume a: "answered net (snd (get_zendesk_ticket_messages cfg net ticket_id fx)) = Inl e
      \<and> is_RequestException e"
  then show "fst (get_zendesk_ticket_messages cfg net ticket_id fx) = Inr PyNone"
    by (simp add: messages_raised_result)
  from a show "stdout (snd (get_zendesk_ticket_messages cfg net ticket_id fx))
          = stdout fx @ [''Error fetching ticket messages: '' @ str_exn e]"
    by (simp add: messages_raised_stdout)
next
  assume a: "answered net (snd (get_zendesk_ticket_messages cfg net ticket_id fx)) = Inr r
      \<and> 400 \<le> status_code r \<and> status_code r < 600"
  then obtain m where m: "raise_for_status r = Inl (HTTPError (str_int (status_code r) @ m))"
    using raise_for_status_error by blast
  from a m show "fst (get_zendesk_ticket_messages cfg net ticket_id fx) = Inr PyNone"
    by (simp add: messages_result then_exn_def)
  from a m have "stdout (snd (get_zendesk_ticket_messages cfg net ticket_id fx))
          = stdout fx @ [''Error fetching ticket messages: '' @ str_int (status_code r) @ m]"
    by (simp add: messages_stdout then_exn_def)
  then show "\<exists>m. stdout (snd (get_zendesk_ticket_messages cfg net ticket_id fx))
          = stdout fx @ [''Error fetching ticket messages: '' @ str_int (status_code r) @ m]"
    by blast
qed

theorem comment_fetch_catches_transport_failures_witness:
  "answered (failing (RequestException ''Connection refused''))
      (snd (get_zendesk_ticket_messages example_settings
              (failing (RequestException ''Connection refused'')) 17 no_effects))
     = Inl (RequestException ''Connection refused'')
   \<and> is_RequestException (RequestException ''Connection refused'')
   \<and> fst (get_zendesk_ticket_messages example_settings
              (failing (RequestException ''Connection refused'')) 17 no_effects) = Inr PyNone
   \<and> stdout (snd (get_zendesk_ticket_messages example_settings
              (failing (RequestException ''Connection refused'')) 17 no_effects))
       = [''Error fetching ticket messages: Connection refused'']
   \<and> answered (answering (example_response 503 None))
      (snd (get_zendesk_ticket_messages example_settings
              (answering (example_response 503 None)) 17 no_effects))
     = Inr (example_response 503 None)
   \<and> 400 \<le> status_code (example_response 503 None)
   \<and> status_code (example_response 503 None) < 600
   \<and> fst (get_zendesk_ticket_messages example_settings
              (answering (example_response 503 None)) 17 no_effects) = Inr PyNone"
  using comment_fetch_catches_transport_failures
    [of "failing (RequestException ''Connection refused'')" example_settings 17 no_effects
        "RequestException ''Connection refused''"]
    comment_fetch_catches_transport_failures
    [of "answering (example_response 503 None)" example_settings 17 no_effects _
        "example_response 503 None"]
  by (simp add: answered_answering answered_failing example_response_def no_effects_def)

text \<open>
  C4. Whatever the ticket id and the message, \<open>reply_to_senders_ticket\<close> raises
  \<^verbatim>\<open>NameError\<close> for the name \<^verbatim>\<open>response\<close>, and the list of requests sent is
  what it was before the call: the failure comes before any HTTP request.
\<close>

theorem reply_fails_with_name_error:
  "fst (reply_to_senders_ticket cfg ticket_id message fx)
     = Inl (NameError (''name '' @ [CHR 0x27] @ ''response'' @ [CHR 0x27] @ '' is not defined''))
   \<and> sent (snd (reply_to_senders_ticket cfg ticket_id message fx)) = sent fx"
  by (simp add: reply_to_senders_ticket_def load_global_def module_globals_def print_def)

text \<open>
  C5. When the request of \<open>get_zendesk_ticket_messages\<close> is answered with status 200
  and a JSON object, the function returns the empty list if the object has no
  \<open>comments\<close> entry, and otherwise the value of that entry as it is: for a list, the
  same elements in the same order.
\<close>

theorem comment_fetch_success:
  assumes "answered net (snd (get_zendesk_ticket_messages cfg net ticket_id fx)) = Inr r"
    and "status_code r = 200"
    and "json r = Some (PyDict kvs)"
  shows "(map_of kvs ''comments'' = None \<longrightarrow>
            fst (get_zendesk_ticket_messages cfg net ticket_id fx) = Inr (PyList []))
       \<and> (map_of kvs ''comments'' = Some v \<longrightarrow>
            fst (get_zendesk_ticket_messages cfg net ticket_id fx) = Inr v)"
  using assms
  by (simp add: messages_result then_exn_def raise_for_status_def response_json_def)

theorem comment_fetch_success_witness:
  "answered (answering (example_response 200 (Some (PyDict [(''count'', PyInt 0)]))))
      (snd (get_zendesk_ticket_messages example_settings
              (answering (example_response 200 (Some (PyDict [(''count'', PyInt 0)]))))
              17 no_effects))
     = Inr (example_response 200 (Some (PyDict [(''count'', PyInt 0)])))
   \<and> status_code (example_response 200 (Some (PyDict [(''count'', PyInt 0)]))) = 200
   \<and> json (example_response 200 (Some (PyDict [(''count'', PyInt 0)])))
       = Some (PyDict [(''count'', PyInt 0)])
   \<and> map_of [(''count'', PyInt 0)] ''comments'' = None
   \<and> fst (get_zendesk_ticket_messages example_settings
              (answering (example_response 200 (Some (PyDict [(''count'', PyInt 0)]))))
              17 no_effects)
     = Inr (PyList [])
   \<and> answered
        (answering (example_response 200
           (Some (PyDict [(''comments'', PyList [PyStr ''b'', PyStr ''a'', PyStr ''c''])]))))
        (snd (get_zendesk_ticket_messages example_settings
           (answering (example_response 200
              (Some (PyDict [(''comments'', PyList [PyStr ''b'', PyStr ''a'', PyStr ''c''])]))))
           17 no_effects))
     = Inr (example_response 200
              (Some (PyDict [(''comments'', PyList [PyStr ''b'', PyStr ''a'', PyStr ''c''])])))
   \<and> map_of [(''comments'', PyList [PyStr ''b'', PyStr ''a'', PyStr ''c''])] ''comments''
       = Some (PyList [PyStr ''b'', PyStr ''a'', PyStr ''c''])
   \<and> fst (get_zendesk_ticket_messages example_settings
           (answering (example_response 200
              (Some (PyDict [(''comments'', PyList [PyStr ''b'', PyStr ''a'', PyStr ''c''])]))))
           17 no_effects)
     = Inr (PyList [PyStr ''b'', PyStr ''a'', PyStr ''c''])"
  using comment_fetch_success
    [of "answering (example_response 200 (Some (PyDict [(''count'', PyInt 0)])))"
        example_settings 17 no_effects
        "example_response 200 (Some (PyDict [(''count'', PyInt 0)]))"
        "[(''count'', PyInt 0)]"]
    comment_fetch_success
    [of "answering (example_response 200
           (Some (PyDict [(''comments'', PyList [PyStr ''b'', PyStr ''a'', PyStr ''c''])])))"
        example_settings 17 no_effects
        "example_response 200
           (Some (PyDict [(''comments'', PyList [PyStr ''b'', PyStr ''a'', PyStr ''c''])]))"
        "[(''comments'', PyList [PyStr ''b'', PyStr ''a'', PyStr ''c''])]"
        "PyList [PyStr ''b'', PyStr ''a'', PyStr ''c'']"]
  by (simp add: answered_answering example_response_def)

text \<open>
  C6. When the transport answers with status 200 and a JSON object whose \<open>results\<close> entry
  is a list, \<open>search_tickets\<close> returns that list whole.
\<close>

theorem search_returns_all_results:
  assumes "answered net (snd (search_tickets cfg net keywords fx)) = Inr r"
    and "status_code r = 200"
    and "json r = Some (PyDict kvs)"
    and "map_of kvs ''results'' = Some (PyList xs)"
  shows "fst (search_tickets cfg net keywords fx) = Inr (PyList xs)"
  using assms
  by (simp add: search_result then_exn_def response_json_def)

theorem search_returns_all_results_witness:
  "answered
     (answering (example_response 200
        (Some (PyDict [(''results'', PyList [PyInt 7, PyInt 8, PyInt 9])]))))
     (snd (search_tickets example_settings
        (answering (example_response 200
           (Some (PyDict [(''results'', PyList [PyInt 7, PyInt 8, PyInt 9])]))))
        ''pw'' no_effects))
     = Inr (example_response 200
              (Some (PyDict [(''results'', PyList [PyInt 7, PyInt 8, PyInt 9])])))
   \<and> status_code (example_response 200
        (Some (PyDict [(''results'', PyList [PyInt 7, PyInt 8, PyInt 9])]))) = 200
   \<and> json (example_response 200
        (Some (PyDict [(''results'', PyList [PyInt 7, PyInt 8, PyInt 9])])))
       = Some (PyDict [(''results'', PyList [PyInt 7, PyInt 8, PyInt 9])])
   \<and> map_of [(''results'', PyList [PyInt 7, PyInt 8, PyInt 9])] ''results''
       = Some (PyList [PyInt 7, PyInt 8, PyInt 9])
   \<and> fst (search_tickets example_settings
        (answering (example_response 200
           (Some (PyDict [(''results'', PyList [PyInt 7, PyInt 8, PyInt 9])]))))
        ''pw'' no_effects)
     = Inr (PyList [PyInt 7, PyInt 8, PyInt 9])"
  using search_returns_all_results
    [of "answering (example_response 200
           (Some (PyDict [(''results'', PyList [PyInt 7, PyInt 8, PyInt 9])])))"
        example_settings "''pw''" no_effects
        "example_response 200 (Some (PyDict [(''results'', PyList [PyInt 7, PyInt 8, PyInt 9])]))"
        "[(''results'', PyList [PyInt 7, PyInt 8, PyInt 9])]"
        "[PyInt 7, PyInt 8, PyInt 9]"]
  by (simp add: answered_answering example_response_def)

text \<open>
  C7. For every keyword, \<open>search_tickets\<close> sends exactly one request, and its only
  parameter is \<open>query\<close> with the value
  \<^verbatim>\<open>status:closed type:ticket description:"<keyword>"\<close>: the keyword stands between
  the two double quotes unchanged, whatever characters it holds.
\<close>

theorem search_query_verbatim:
  "(\<exists>rq. sent (snd (search_tickets cfg net keywords fx)) = sent fx @ [rq]
         \<and> params rq = [(''query'', ''status:closed type:ticket description:''
                                    @ [CHR 0x22] @ keywords @ [CHR 0x22])])
   \<and> sublist keywords
       (''status:closed type:ticket description:'' @ [CHR 0x22] @ keywords @ [CHR 0x22])"
proof -
  have "sublist keywords
      ((''status:closed type:ticket description:'' @ [CHR 0x22]) @ keywords @ [CHR 0x22])"
    by (rule sublist_appendI)
  then show ?thesis by (simp add: search_sent)
qed

text \<open>
  C8. The request that \<open>read_open_zendesk_tickets\<close> sends and the one that
  \<open>search_tickets\<close> sends carry the header \<open>Authorization\<close> with the value of
  \<open>auth\<close>: \<^verbatim>\<open>Basic \<close> followed by the Base64 encoding of the email,
  \<^verbatim>\<open>/token:\<close> and the token.
\<close>

theorem search_authorization_header:
  "map_of (headers (last (sent (snd (read_open_zendesk_tickets cfg net fx))))) ''Authorization''
     = Some (''Basic '' @ b64encode (ZENDESK_EMAIL cfg @ ''/token:'' @ api_key cfg))
   \<and> map_of (headers (last (sent (snd (search_tickets cfg net keywords fx))))) ''Authorization''
     = Some (''Basic '' @ b64encode (ZENDESK_EMAIL cfg @ ''/token:'' @ api_key cfg))
   \<and> auth cfg = ''Basic '' @ b64encode (ZENDESK_EMAIL cfg @ ''/token:'' @ api_key cfg)"
  by (simp add: read_open_sent search_sent auth_def)

text \<open>
  C9. Whatever the ticket id and the message, the effects of
  \<open>reply_to_senders_ticket\<close> are those before the call with one more printed line, the
  message: no request is sent.
\<close>

theorem reply_only_prints:
  "snd (reply_to_senders_ticket cfg ticket_id message fx)
     = fx\<lparr>stdout := stdout fx @ [message]\<rparr>
   \<and> sent (snd (reply_to_senders_ticket cfg ticket_id message fx)) = sent fx
   \<and> stdout (snd (reply_to_senders_ticket cfg ticket_id message fx)) = stdout fx @ [message]"
  by (simp add: reply_to_senders_ticket_def load_global_def module_globals_def print_def)

text \<open>
  C10. When the transport answers with status 200 and a JSON object whose \<open>results\<close>
  entry is the empty list, \<open>read_open_zendesk_tickets\<close> returns the empty list: a value,
  not an exception and not the error string, and nothing is printed.
\<close>

theorem open_tickets_empty_results:
  assumes "answered net (snd (read_open_zendesk_tickets cfg net fx)) = Inr r"
    and "status_code r = 200"
    and "json r = Some (PyDict kvs)"
    and "map_of kvs ''results'' = Some (PyList [])"
  shows "fst (read_open_zendesk_tickets cfg net fx) = Inr (PyList [])
         \<and> stdout (snd (read_open_zendesk_tickets cfg net fx)) = stdout fx"
  using assms
  by (simp add: read_open_result read_open_stdout then_exn_def response_json_def)

theorem open_tickets_empty_results_witness:
  "answered (answering (example_response 200 (Some (PyDict [(''results'', PyList [])]))))
     (snd (read_open_zendesk_tickets example_settings
        (answering (example_response 200 (Some (PyDict [(''results'', PyList [])]))))
        no_effects))
     = Inr (example_response 200 (Some (PyDict [(''results'', PyList [])])))
   \<and> status_code (example_response 200 (Some (PyDict [(''results'', PyList [])]))) = 200
   \<and> json (example_response 200 (Some (PyDict [(''results'', PyList [])])))
       = Some (PyDict [(''results'', PyList [])])
   \<and> map_of [(''results'', PyList [])] ''results'' = Some (PyList [])
   \<and> fst (read_open_zendesk_tickets example_settings
        (answering (example_response 200 (Some (PyDict [(''results'', PyList [])]))))
        no_effects)
     = Inr (PyList [])"
  using open_tickets_empty_results
    [of "answering (example_response 200 (Some (PyDict [(''results'', PyList [])])))"
        example_settings no_effects
        "example_response 200 (Some (PyDict [(''results'', PyList [])]))"
        "[(''results'', PyList [])]"]
  by (simp add: answered_answering example_response_def)

end
